theory Spec2Isabelle
  imports Complex_Main "HOL-Library.Word"
begin

section \<open>JavaScript values used by the client\<close>

text \<open>
  A JavaScript number is \<open>NaN\<close>, an infinity or a finite number. Finite numbers are
  modelled by their exact real value: the rounding of IEEE doubles is not part of the
  model.

  A string that the client only stores, compares or shows is a \<open>string\<close>. A string
  that it parses is the list of its UTF-16 code units (\<open>jsstring\<close>, 16-bit words),
  since \<^verbatim>\<open>parseInt\<close> and \<^verbatim>\<open>parseFloat\<close> skip white space far beyond ASCII;
  \<open>units\<close> gives the code units of a string of characters below U+0100.
\<close>

datatype jsnum = NaN | Infinity | NegInfinity | Num real

type_synonym codeunit = "16 word"

type_synonym jsstring = "codeunit list"

definition unit_of :: "char \<Rightarrow> codeunit" where
  "unit_of c = of_char c"

definition units :: "string \<Rightarrow> jsstring" where
  "units s = map unit_of s"

text \<open>A number is falsy when it is \<open>NaN\<close> or zero; \<^verbatim>\<open>a || b\<close> is \<open>a\<close> when \<open>a\<close> is truthy.\<close>

definition truthy :: "jsnum \<Rightarrow> bool" where
  "truthy n = (n \<noteq> NaN \<and> n \<noteq> Num 0)"

definition or_num :: "jsnum \<Rightarrow> jsnum \<Rightarrow> jsnum" where
  "or_num a b = (if truthy a then a else b)"

text \<open>A string is falsy when it is empty (\<^verbatim>\<open>s || undefined\<close>, \<^verbatim>\<open>s || '3h'\<close>).\<close>

definition or_undefined :: "string \<Rightarrow> string option" where
  "or_undefined s = (if s = [] then None else Some s)"

subsection \<open>\<^verbatim>\<open>parseInt\<close> and \<^verbatim>\<open>parseFloat\<close>\<close>

text \<open>
  The code units that both functions skip at the start of their argument
  (\<^verbatim>\<open>StrWhiteSpaceChar\<close> of ECMAScript): the white space TAB, VT, FF, ZWNBSP (U+FEFF)
  and the space separators of Unicode (U+0020, U+00A0, U+1680, U+2000 to U+200A,
  U+202F, U+205F, U+3000), and the line terminators LF, CR, U+2028 and U+2029.
\<close>

definition isWhiteSpace :: "codeunit \<Rightarrow> bool" where
  "isWhiteSpace c =
     (c \<in> {0x09, 0x0B, 0x0C, 0xFEFF, 0x20, 0xA0, 0x1680, 0x202F, 0x205F, 0x3000,
            0x0A, 0x0D, 0x2028, 0x2029}
      \<or> (0x2000 \<le> c \<and> c \<le> 0x200A))"

text \<open>The value of a digit: \<^verbatim>\<open>0\<close> to \<^verbatim>\<open>9\<close>, \<^verbatim>\<open>a\<close> to \<^verbatim>\<open>f\<close> and \<^verbatim>\<open>A\<close> to \<^verbatim>\<open>F\<close>.\<close>

definition digitValue :: "codeunit \<Rightarrow> nat option" where
  "digitValue c =
     (let n = uint c in
      if 48 \<le> n \<and> n \<le> 57 then Some (nat (n - 48))
      else if 97 \<le> n \<and> n \<le> 102 then Some (nat (n - 87))
      else if 65 \<le> n \<and> n \<le> 70 then Some (nat (n - 55))
      else None)"

definition isRadixDigit :: "nat \<Rightarrow> codeunit \<Rightarrow> bool" where
  "isRadixDigit R c = (case digitValue c of Some d \<Rightarrow> d < R | None \<Rightarrow> False)"

definition digitsValue :: "nat \<Rightarrow> jsstring \<Rightarrow> nat" where
  "digitsValue R Z =
     foldl (\<lambda>acc c. case digitValue c of Some d \<Rightarrow> acc * R + d | None \<Rightarrow> acc) 0 Z"

definition isSign :: "codeunit \<Rightarrow> bool" where
  "isSign c = (c = unit_of CHR ''+'' \<or> c = unit_of CHR ''-'')"

definition startsWithMinus :: "jsstring \<Rightarrow> bool" where
  "startsWithMinus S = (case S of [] \<Rightarrow> False | c # _ \<Rightarrow> c = unit_of CHR ''-'')"

definition dropSign :: "jsstring \<Rightarrow> jsstring" where
  "dropSign S = (case S of [] \<Rightarrow> [] | c # cs \<Rightarrow> if isSign c then cs else S)"

text \<open>
  \<^verbatim>\<open>parseInt(string)\<close> with no radix (ECMAScript 19.2.5): skip white space, read a
  sign, read \<^verbatim>\<open>0x\<close> or \<^verbatim>\<open>0X\<close> as the mark of radix 16, take the longest run of
  digits of the radix; no digit gives \<open>NaN\<close>.
\<close>

definition parseInt :: "jsstring \<Rightarrow> jsnum" where
  "parseInt inputString =
     (let S = dropWhile isWhiteSpace inputString;
          sign = (if startsWithMinus S then - 1 else 1 :: int);
          S1 = dropSign S;
          hex = (take 2 S1 = units ''0x'' \<or> take 2 S1 = units ''0X'');
          R = (if hex then 16 else 10);
          S2 = (if hex then drop 2 S1 else S1);
          Z = takeWhile (isRadixDigit R) S2
      in if Z = [] then NaN else Num (of_int (sign * int (digitsValue R Z))))"

text \<open>
  The exponent part of a decimal literal: \<^verbatim>\<open>e\<close> or \<^verbatim>\<open>E\<close>, an optional sign and at
  least one digit; anything else is not part of the number and counts as exponent 0.
\<close>

definition exponentPart :: "jsstring \<Rightarrow> int" where
  "exponentPart S =
     (case S of
        [] \<Rightarrow> 0
      | c # cs \<Rightarrow>
          if c = unit_of CHR ''e'' \<or> c = unit_of CHR ''E'' then
            (let D = takeWhile (isRadixDigit 10) (dropSign cs)
             in if D = [] then 0
                else (if startsWithMinus cs then - 1 else 1) * int (digitsValue 10 D))
          else 0)"

definition pow10 :: "int \<Rightarrow> real" where
  "pow10 e = (if 0 \<le> e then 10 ^ nat e else 1 / 10 ^ nat (- e))"

text \<open>
  \<^verbatim>\<open>parseFloat(string)\<close> (ECMAScript 19.2.4): skip white space and take the longest
  prefix that is a \<^verbatim>\<open>StrDecimalLiteral\<close>: a sign, then \<^verbatim>\<open>Infinity\<close> or digits with
  an optional fraction and exponent. No such prefix gives \<open>NaN\<close>.
\<close>

definition parseFloat :: "jsstring \<Rightarrow> jsnum" where
  "parseFloat inputString =
     (let S = dropWhile isWhiteSpace inputString;
          neg = startsWithMinus S;
          S1 = dropSign S
      in if take 8 S1 = units ''Infinity'' then (if neg then NegInfinity else Infinity)
         else
           (let I = takeWhile (isRadixDigit 10) S1;
                R1 = dropWhile (isRadixDigit 10) S1;
                hasDot = (case R1 of [] \<Rightarrow> False | c # _ \<Rightarrow> c = unit_of CHR ''.'');
                F = (if hasDot then takeWhile (isRadixDigit 10) (tl R1) else []);
                R2 = (if hasDot then dropWhile (isRadixDigit 10) (tl R1) else R1);
                mantissa = real (digitsValue 10 I) + real (digitsValue 10 F) / 10 ^ length F
            in if I = [] \<and> F = [] then NaN
               else Num ((if neg then - 1 else 1) * mantissa * pow10 (exponentPart R2))))"

section \<open>The API client's types (\<^verbatim>\<open>services/api.ts\<close>)\<close>

text \<open>
  The body of a response is JSON. A study session of a response is a JSON object; the
  client's interface \<^verbatim>\<open>StudySessionResponse\<close> names the properties it is typed to
  have and their types.
\<close>

datatype json =
    JNull
  | JBool bool
  | JNumber real
  | JString string
  | JArray "json list"
  | JObject "(string \<times> json) list"

type_synonym jsobject = "(string \<times> json) list"

text \<open>
  An object is the list of its properties, each key once. Reading a property:
  \<open>None\<close> is \<^verbatim>\<open>undefined\<close>.
\<close>

definition getProp :: "jsobject \<Rightarrow> string \<Rightarrow> json option" where
  "getProp obj key = map_of obj key"

definition isString :: "json option \<Rightarrow> bool" where
  "isString v = (case v of Some (JString _) \<Rightarrow> True | _ \<Rightarrow> False)"

definition isNumber :: "json option \<Rightarrow> bool" where
  "isNumber v = (case v of Some (JNumber _) \<Rightarrow> True | _ \<Rightarrow> False)"

text \<open>
  \<^verbatim>\<open>interface StudySessionResponse { id: string; subject: string; subject_color: string;
  title: string; duration: number; start_time: string; day: string; session_type: string }\<close>
\<close>

definition StudySessionResponse :: "jsobject \<Rightarrow> bool" where
  "StudySessionResponse s =
     (isString (getProp s ''id'') \<and>
      isString (getProp s ''subject'') \<and>
      isString (getProp s ''subject_color'') \<and>
      isString (getProp s ''title'') \<and>
      isNumber (getProp s ''duration'') \<and>
      isString (getProp s ''start_time'') \<and>
      isString (getProp s ''day'') \<and>
      isString (getProp s ''session_type''))"

text \<open>\<^verbatim>\<open>interface TimetableResponse\<close>.\<close>

record TimetableResponse =
  sessions :: "jsobject list"
  total_hours :: real
  days :: real
  subjects_covered :: real

text \<open>The argument of \<^verbatim>\<open>generateTimetable\<close>, as \<^verbatim>\<open>handleGenerate\<close> builds it.\<close>

record timetableRequest =
  subject_ids :: "string list"
  hours_per_day :: jsnum
  preferred_blocks :: "string list"
  exam_date :: "string option"
  days_count :: jsnum

text \<open>\<^verbatim>\<open>interface SubjectResponse\<close>.\<close>

record SubjectResponse =
  resp_id :: string
  resp_name :: string
  description :: "string option"
  color :: string
  file_count :: real
  total_study_time :: real
  created_at :: string
  updated_at :: string

section \<open>The planner view (\<^verbatim>\<open>features/planner/PlannerView.tsx\<close>)\<close>

text \<open>
  The form of the generate dialog, the state \<^verbatim>\<open>formData\<close>. The two inputs that
  the handler parses are held as code units.
\<close>

record formData =
  hoursPerDay :: jsstring
  studyBlocks :: "string list"
  examDate :: string
  selectedSubjectIds :: "string list"
  daysCount :: jsstring

text \<open>
  A session as the view shows it: the object that \<^verbatim>\<open>handleGenerate\<close> builds from a
  session of the response. A property that the response does not have is
  \<^verbatim>\<open>undefined\<close> (\<open>None\<close>).
\<close>

record StudySession =
  ui_id :: "json option"
  ui_subject :: "json option"
  ui_title :: "json option"
  ui_duration :: "json option"
  ui_startTime :: "json option"
  ui_color :: "json option"
  ui_type :: "json option"

definition toStudySession :: "jsobject \<Rightarrow> StudySession" where
  "toStudySession s =
     \<lparr> ui_id = getProp s ''id'',
       ui_subject = getProp s ''subject'',
       ui_title = getProp s ''title'',
       ui_duration = getProp s ''duration'',
       ui_startTime = getProp s ''start_time'',
       ui_color = getProp s ''subject_color'',
       ui_type = getProp s ''session_type'' \<rparr>"

text \<open>
  A session object that \<^verbatim>\<open>StudySessionResponse\<close> admits: every declared property is
  there with its declared type.
\<close>

definition sample_session :: jsobject where
  "sample_session =
     [ (''id'', JString ''session-1''),
       (''subject'', JString ''Algebra''),
       (''subject_color'', JString ''#8B5CF6''),
       (''title'', JString ''Break: Algebra''),
       (''duration'', JNumber (45 / 2)),
       (''start_time'', JString ''06:00''),
       (''day'', JString ''Monday''),
       (''session_type'', JString ''break'') ]"

record timetableStats =
  totalHours :: real
  stats_days :: real
  subjectsCovered :: real

datatype viewMode = week | list_view

text \<open>The state of the component: its \<^verbatim>\<open>useState\<close> cells.\<close>

record plannerState =
  showGenerateForm :: bool
  showEditModal :: bool
  selectedSession :: "StudySession option"
  viewMode :: viewMode
  subjects :: "SubjectResponse list"
  studySessions :: "StudySession list"
  generating :: bool
  timetableStats :: timetableStats
  formData :: formData

text \<open>The initial values of the \<^verbatim>\<open>useState\<close> cells (lines 17 to 32).\<close>

definition initialState :: plannerState where
  "initialState =
     \<lparr> showGenerateForm = False,
       showEditModal = False,
       selectedSession = None,
       viewMode = week,
       subjects = [],
       studySessions = [],
       generating = False,
       timetableStats = \<lparr> totalHours = 0, stats_days = 0, subjectsCovered = 0 \<rparr>,
       formData =
         \<lparr> hoursPerDay = units ''4'',
           studyBlocks = [],
           examDate = [],
           selectedSubjectIds = [],
           daysCount = units ''7'' \<rparr> \<rparr>"

text \<open>The request object of \<^verbatim>\<open>handleGenerate\<close> (lines 58 to 66).\<close>

definition generateRequest :: "formData \<Rightarrow> timetableRequest" where
  "generateRequest fd =
     \<lparr> subject_ids = selectedSubjectIds fd,
       hours_per_day = or_num (parseFloat (hoursPerDay fd)) (Num 4),
       preferred_blocks =
         (if length (studyBlocks fd) > 0 then studyBlocks fd
          else [''Morning (6-12)'', ''Afternoon (12-18)'']),
       exam_date = or_undefined (examDate fd),
       days_count = or_num (parseInt (daysCount fd)) (Num 7) \<rparr>"

text \<open>
  \<^verbatim>\<open>handleGenerate\<close>. The server is a parameter: \<open>api\<close> answers a request with a
  response (\<open>Inr\<close>) or fails with a message (\<open>Inl\<close>, the \<^verbatim>\<open>Error\<close> that
  \<^verbatim>\<open>request\<close> throws). The result is the list of calls of \<^verbatim>\<open>generateTimetable\<close> the
  handler made and the state once it has finished; the \<^verbatim>\<open>finally\<close> branch has
  then reset \<^verbatim>\<open>generating\<close>.
\<close>

definition handleGenerate ::
  "(timetableRequest \<Rightarrow> string + TimetableResponse) \<Rightarrow> plannerState
     \<Rightarrow> timetableRequest list \<times> plannerState" where
  "handleGenerate api st =
     (if length (selectedSubjectIds (formData st)) = 0 then ([], st)
      else
        (let req = generateRequest (formData st) in
         case api req of
           Inr result \<Rightarrow>
             ([req],
              st\<lparr> studySessions := map toStudySession (sessions result),
                  timetableStats :=
                    \<lparr> totalHours = total_hours result,
                      stats_days = days result,
                      subjectsCovered = subjects_covered result \<rparr>,
                  showGenerateForm := False,
                  generating := False \<rparr>)
         | Inl err \<Rightarrow> ([req], st\<lparr> generating := False \<rparr>)))"

text \<open>
  A server that is down: \<^verbatim>\<open>request\<close> throws \<^verbatim>\<open>Request failed: 503\<close> for every
  call.
\<close>

definition offline :: "timetableRequest \<Rightarrow> string + TimetableResponse" where
  "offline req = Inl ''Request failed: 503''"

text \<open>The \<^verbatim>\<open>disabled\<close> attribute of the dialog's generate button (line 206).\<close>

definition generateDisabled :: "plannerState \<Rightarrow> bool" where
  "generateDisabled st = (generating st \<or> length (selectedSubjectIds (formData st)) = 0)"

text \<open>
  \<^verbatim>\<open>toggleArrayItem\<close>:
  \<^verbatim>\<open>array.includes(item) ? array.filter(i => i !== item) : [...array, item]\<close>.
  On strings \<^verbatim>\<open>includes\<close> and \<^verbatim>\<open>!==\<close> both compare by value.
\<close>

definition toggleArrayItem :: "string list \<Rightarrow> string \<Rightarrow> string list" where
  "toggleArrayItem array item =
     (if item \<in> set array then filter (\<lambda>i. i \<noteq> item) array else array @ [item])"

section \<open>Formatting minutes\<close>

text \<open>
  \<^verbatim>\<open>Math.round\<close> rounds half up, \<^verbatim>\<open>Math.floor\<close> and \<^verbatim>\<open>Math.ceil\<close> are floor and
  ceiling; on finite numbers their results are integers. \<^verbatim>\<open>n % d\<close> is the remainder
  of the division truncated towards zero.
\<close>

definition Math_round :: "real \<Rightarrow> int" where
  "Math_round x = \<lfloor>x + 1 / 2\<rfloor>"

definition Math_floor :: "real \<Rightarrow> int" where
  "Math_floor x = \<lfloor>x\<rfloor>"

definition Math_ceil :: "jsnum \<Rightarrow> jsnum" where
  "Math_ceil n = (case n of Num x \<Rightarrow> Num (of_int \<lceil>x\<rceil>) | _ \<Rightarrow> n)"

definition remainder :: "real \<Rightarrow> real \<Rightarrow> real" where
  "remainder n d = n - d * of_int (if 0 \<le> n / d then \<lfloor>n / d\<rfloor> else \<lceil>n / d\<rceil>)"

text \<open>
  An integer in a template literal: its decimal digits, with a minus sign when it is
  negative (the form JavaScript prints below \<open>10\<^sup>2\<^sup>1\<close>).
\<close>

definition digitChar :: "nat \<Rightarrow> char" where
  "digitChar d = ''0123456789'' ! d"

fun natToString :: "nat \<Rightarrow> string" where
  "natToString n =
     (if n < 10 then [digitChar n] else natToString (n div 10) @ [digitChar (n mod 10)])"

declare natToString.simps [simp del]

definition numberToString :: "int \<Rightarrow> string" where
  "numberToString i =
     (if i < 0 then CHR ''-'' # natToString (nat (- i)) else natToString (nat i))"

text \<open>
  \<^verbatim>\<open>formatMinutes\<close> of \<^verbatim>\<open>SubjectManagement\<close> and of \<^verbatim>\<open>DashboardView.tsx\<close>:
  \<^verbatim>\<open>
  if (minutes === 0) return '0m';
  if (minutes < 60) return `${Math.round(minutes)}m`;
  const h = Math.floor(minutes / 60);
  const m = Math.round(minutes % 60);
  return m > 0 ? `${h}h ${m}m` : `${h}h`;\<close>
\<close>

definition formatMinutes_SubjectManagement :: "real \<Rightarrow> string" where
  "formatMinutes_SubjectManagement minutes =
     (if minutes = 0 then ''0m''
      else if minutes < 60 then numberToString (Math_round minutes) @ ''m''
      else
        (let h = Math_floor (minutes / 60);
             m = Math_round (remainder minutes 60)
         in if m > 0 then numberToString h @ ''h '' @ numberToString m @ ''m''
            else numberToString h @ ''h''))"

definition formatMinutes_DashboardView :: "real \<Rightarrow> string" where
  "formatMinutes_DashboardView minutes =
     (if minutes = 0 then ''0m''
      else if minutes < 60 then numberToString (Math_round minutes) @ ''m''
      else
        (let h = Math_floor (minutes / 60);
             m = Math_round (remainder minutes 60)
         in if m > 0 then numberToString h @ ''h '' @ numberToString m @ ''m''
            else numberToString h @ ''h''))"

text \<open>
  \<^verbatim>\<open>formatMinutes\<close> of \<^verbatim>\<open>AnalyzeView.tsx\<close> and of \<^verbatim>\<open>LibraryView\<close>: the same
  function without the first line.
\<close>

definition formatMinutes_AnalyzeView :: "real \<Rightarrow> string" where
  "formatMinutes_AnalyzeView minutes =
     (if minutes < 60 then numberToString (Math_round minutes) @ ''m''
      else
        (let h = Math_floor (minutes / 60);
             m = Math_round (remainder minutes 60)
         in if m > 0 then numberToString h @ ''h '' @ numberToString m @ ''m''
            else numberToString h @ ''h''))"

definition formatMinutes_LibraryView :: "real \<Rightarrow> string" where
  "formatMinutes_LibraryView minutes =
     (if minutes < 60 then numberToString (Math_round minutes) @ ''m''
      else
        (let h = Math_floor (minutes / 60);
             m = Math_round (remainder minutes 60)
         in if m > 0 then numberToString h @ ''h '' @ numberToString m @ ''m''
            else numberToString h @ ''h''))"

section \<open>The analysis dialog (\<^verbatim>\<open>features/analyze/components/AnalysisModal.tsx\<close>)\<close>

datatype difficulty = easy | medium | hard

text \<open>
  The property \<^verbatim>\<open>fileMetadata\<close> of the dialog; each of its fields is optional. The
  estimated time is parsed, so it is held as code units.
\<close>

record fileMetadata =
  pages :: "real option"
  estimatedTime :: "jsstring option"
  meta_difficulty :: "difficulty option"
  aiKeyTopics :: "string list option"
  aiStudyTips :: "string list option"
  meta_aiReasoning :: "string option"
  wordCount :: "real option"
  imageCount :: "real option"

record recommendedSession =
  duration :: real
  type :: string

record AnalysisResult =
  totalPages :: real
  contentDensity :: real
  estimatedHours :: jsnum
  difficulty :: difficulty
  recommendedSessions :: "recommendedSession list"
  suggestedTopics :: "string list"
  aiReasoning :: "string option"
  studyTips :: "string list option"

text \<open>\<^verbatim>\<open>fileMetadata?.field\<close>: \<^verbatim>\<open>undefined\<close> when the metadata or the field is missing.\<close>

definition optField :: "('a \<Rightarrow> 'b option) \<Rightarrow> 'a option \<Rightarrow> 'b option" where
  "optField f md = (case md of None \<Rightarrow> None | Some m \<Rightarrow> f m)"

text \<open>\<^verbatim>\<open>v || d\<close> for an optional number, an optional string and an optional object.\<close>

definition or_real :: "real option \<Rightarrow> real \<Rightarrow> real" where
  "or_real v d = (case v of None \<Rightarrow> d | Some x \<Rightarrow> if x = 0 then d else x)"

definition or_string :: "jsstring option \<Rightarrow> jsstring \<Rightarrow> jsstring" where
  "or_string v d = (case v of None \<Rightarrow> d | Some x \<Rightarrow> if x = [] then d else x)"

definition or_object :: "'a option \<Rightarrow> 'a \<Rightarrow> 'a" where
  "or_object v d = (case v of None \<Rightarrow> d | Some x \<Rightarrow> x)"

text \<open>
  The result that \<^verbatim>\<open>runAnalysis\<close> builds and stores once the progress steps have run
  (lines 72 to 95).
\<close>

definition runAnalysis :: "fileMetadata option \<Rightarrow> AnalysisResult" where
  "runAnalysis md =
     (let pgs = or_real (optField pages md) 20;
          estimatedTimeStr = or_string (optField estimatedTime md) (units ''3h'');
          hours =
            or_num
              (parseFloat
                 (filter (\<lambda>c. c \<noteq> unit_of CHR ''h'' \<and> c \<noteq> unit_of CHR ''m'')
                    estimatedTimeStr))
              (Num 3)
      in \<lparr> totalPages = pgs,
           contentDensity =
             min (of_int (Math_floor (or_real (optField wordCount md) 0 / max pgs 1 / (12 / 10))) + 30)
                 100,
           estimatedHours = Math_ceil hours,
           difficulty = or_object (optField meta_difficulty md) medium,
           recommendedSessions =
             [ \<lparr> duration = 90, type = ''Deep focus'' \<rparr>,
               \<lparr> duration = 60, type = ''Review'' \<rparr>,
               \<lparr> duration = 90, type = ''Deep focus'' \<rparr>,
               \<lparr> duration = 30, type = ''Quick recap'' \<rparr> ],
           suggestedTopics =
             or_object (optField aiKeyTopics md)
               [''Core concepts'', ''Key principles'', ''Applications'', ''Practice problems''],
           aiReasoning = optField meta_aiReasoning md,
           studyTips = optField aiStudyTips md \<rparr>)"

section \<open>The timetable generator\<close>

text \<open>
  The server behind \<^verbatim>\<open>POST generate-timetable\<close> is not among the sources: the client
  only calls it. The definitions of this section follow the specification of the
  engine (its sections 3, 4, 6 and 7). Minutes are natural numbers once an allocation
  has been rounded, a time of day is the number of minutes since midnight, and a
  calendar date is the number of its day.
\<close>

datatype session_type = deep_focus | review | quick_recap

datatype time_block = Morning | Afternoon | Evening

datatype exam_date = Unparseable | OnDay int

datatype engine_error = InvalidRequest

text \<open>
  Modelled from the spec: the entity Subject of the data model, a snapshot of what
  the subject store supplies (identity and outstanding minutes).
\<close>

record Subject =
  subj_id :: string
  subj_name :: string
  subj_color :: string
  outstanding_minutes :: real

text \<open>
  Modelled from the spec: the request of \<^verbatim>\<open>POST generate-timetable\<close>; every field
  but \<^verbatim>\<open>subject_ids\<close> is optional. An exam date that is no ISO date is
  \<open>Unparseable\<close>.
\<close>

record GenerationRequest =
  req_subject_ids :: "string list"
  req_hours_per_day :: "real option"
  req_preferred_blocks :: "string list option"
  req_exam_date :: "exam_date option"
  req_days_count :: "int option"

text \<open>Modelled from the spec: the output entity StudySession.\<close>

record ScheduledSession =
  session_id :: nat
  subject_id :: string
  subject_name :: string
  subject_color :: string
  title :: string
  duration_minutes :: nat
  start_time :: nat
  day_index :: nat
  session_type :: session_type

text \<open>Modelled from the spec: the output aggregate Schedule.\<close>

record Schedule =
  sched_sessions :: "ScheduledSession list"
  sched_total_hours :: real
  sched_days :: nat
  sched_subjects_covered :: nat

subsection \<open>Validation\<close>

text \<open>
  Modelled from the spec: the error class InvalidRequest of section 7. A request is
  rejected when \<^verbatim>\<open>subject_ids\<close> is empty, \<^verbatim>\<open>hours_per_day\<close> or \<^verbatim>\<open>days_count\<close> is
  not positive, the exam date is unparseable, or a requested id is unknown to the
  subject store.
\<close>

definition valid_request :: "Subject list \<Rightarrow> GenerationRequest \<Rightarrow> bool" where
  "valid_request store req =
     (req_subject_ids req \<noteq> [] \<and>
      list_all (\<lambda>i. list_ex (\<lambda>s. subj_id s = i) store) (req_subject_ids req) \<and>
      (case req_hours_per_day req of None \<Rightarrow> True | Some h \<Rightarrow> 0 < h) \<and>
      (case req_days_count req of None \<Rightarrow> True | Some n \<Rightarrow> 0 < n) \<and>
      req_exam_date req \<noteq> Some Unparseable)"

text \<open>
  Modelled from the spec: the subjects of the request, in the order of the request;
  \<^verbatim>\<open>subject_ids\<close> is a set, so a repeated id counts once.
\<close>

definition selected_subjects :: "Subject list \<Rightarrow> GenerationRequest \<Rightarrow> Subject list" where
  "selected_subjects store req =
     List.map_filter (\<lambda>i. find (\<lambda>s. subj_id s = i) store) (remdups (req_subject_ids req))"

text \<open>Modelled from the spec: the defaults of the request (4 hours a day, 7 days).\<close>

definition hours_of :: "GenerationRequest \<Rightarrow> real" where
  "hours_of req = (case req_hours_per_day req of None \<Rightarrow> 4 | Some h \<Rightarrow> h)"

definition days_of :: "GenerationRequest \<Rightarrow> int" where
  "days_of req = (case req_days_count req of None \<Rightarrow> 7 | Some n \<Rightarrow> n)"

text \<open>
  Modelled from the spec: the time blocks Morning, Afternoon and Evening. A block is
  named by its plain name or by the client's label; its hours are those of the
  client's labels (6 to 12, 12 to 18, 18 to 24). A name that is no block is skipped,
  and an absent or empty list is Morning and Afternoon.
\<close>

definition parse_block :: "string \<Rightarrow> time_block option" where
  "parse_block name =
     (if name = ''Morning'' \<or> name = ''Morning (6-12)'' then Some Morning
      else if name = ''Afternoon'' \<or> name = ''Afternoon (12-18)'' then Some Afternoon
      else if name = ''Evening'' \<or> name = ''Evening (18-24)'' then Some Evening
      else None)"

definition blocks_of :: "GenerationRequest \<Rightarrow> time_block list" where
  "blocks_of req =
     (case req_preferred_blocks req of
        None \<Rightarrow> [Morning, Afternoon]
      | Some names \<Rightarrow>
          if names = [] then [Morning, Afternoon] else List.map_filter parse_block names)"

fun block_start :: "time_block \<Rightarrow> nat" where
  "block_start Morning = 360"
| "block_start Afternoon = 720"
| "block_start Evening = 1080"

text \<open>Modelled from the spec: the duration ceiling of a block, the length of its window.\<close>

definition block_length :: "time_block \<Rightarrow> nat" where
  "block_length b = 360"

subsection \<open>Horizon\<close>

text \<open>
  Modelled from the spec: step 5 of section 4.3. With an exam date the horizon is
  \<^verbatim>\<open>min(days_count, days_until(exam_date))\<close>; an exam date earlier than tomorrow is
  zero capacity.
\<close>

definition effective_days_count :: "int \<Rightarrow> GenerationRequest \<Rightarrow> nat" where
  "effective_days_count today req =
     (case req_exam_date req of
        Some (OnDay e) \<Rightarrow>
          if e < today + 1 then 0 else nat (min (days_of req) (e - today))
      | _ \<Rightarrow> nat (days_of req))"

subsection \<open>Time-debt distribution\<close>

text \<open>
  Modelled from the spec: steps 1 and 2 of section 4.1. With no outstanding time at
  all the available minutes are split equally; otherwise a subject's target is
  \<^verbatim>\<open>min(outstanding, total_available * outstanding / total_outstanding)\<close>.
\<close>

definition target_allocation :: "real \<Rightarrow> real list \<Rightarrow> real list" where
  "target_allocation total_available outs =
     (let total_outstanding = sum_list outs in
      if total_outstanding = 0 then map (\<lambda>_. total_available / real (length outs)) outs
      else map (\<lambda>out. min out (total_available * out / total_outstanding)) outs)"

text \<open>
  Modelled from the spec: one pass of step 3 of section 4.1. What the targets leave
  of the available minutes goes to the subjects still below their ceiling, in
  proportion to their outstanding minutes and up to the ceiling.
\<close>

definition redistribute :: "real \<Rightarrow> real list \<Rightarrow> real list \<Rightarrow> real list" where
  "redistribute total_available outs alloc =
     (let remainder = total_available - sum_list alloc;
          below = sum_list (map (\<lambda>(out, a). if a < out then out else 0) (zip outs alloc))
      in if remainder \<le> 0 \<or> below = 0 then alloc
         else map (\<lambda>(out, a). if a < out then min out (a + remainder * out / below) else a)
                (zip outs alloc))"

text \<open>
  Modelled from the spec: step 3 of section 4.1 as the bounded loop of section 9, at
  most one pass per subject, stopping when no allocation changed.
\<close>

fun water_fill :: "nat \<Rightarrow> real \<Rightarrow> real list \<Rightarrow> real list \<Rightarrow> real list" where
  "water_fill 0 total_available outs alloc = alloc"
| "water_fill (Suc passes) total_available outs alloc =
     (let alloc' = redistribute total_available outs alloc
      in if alloc' = alloc then alloc else water_fill passes total_available outs alloc')"

text \<open>Modelled from the spec: the smallest session granularity of section 4.1, 30 minutes.\<close>

definition granularity :: nat where
  "granularity = 30"

definition round_down :: "real \<Rightarrow> nat" where
  "round_down a = granularity * nat \<lfloor>a / real granularity\<rfloor>"

text \<open>
  Modelled from the spec: the comparison behind "the largest outstanding/allocated
  ratio" of step 4. A pair is (outstanding, allocated); a ratio over no allocated
  minutes is larger than every other ratio.
\<close>

definition ratio_greater :: "real \<times> nat \<Rightarrow> real \<times> nat \<Rightarrow> bool" where
  "ratio_greater x y =
     (case (x, y) of ((out1, a1), (out2, a2)) \<Rightarrow>
        if a2 = 0 then False
        else if a1 = 0 then True
        else out2 / real a2 < out1 / real a1)"

definition largest_ratio :: "(real \<times> nat) list \<Rightarrow> nat" where
  "largest_ratio xs =
     fold (\<lambda>i best. if ratio_greater (xs ! i) (xs ! best) then i else best) [0..<length xs] 0"

text \<open>
  Modelled from the spec: step 4 of section 4.1. Every allocation is rounded down to
  a multiple of the granularity; the whole minutes that the rounding left over go to
  the first subject with the largest outstanding/allocated ratio.
\<close>

definition round_allocation :: "real list \<Rightarrow> real list \<Rightarrow> nat list" where
  "round_allocation outs alloc =
     (let rounded = map round_down alloc;
          leftover = nat \<lfloor>sum_list alloc - real (sum_list rounded)\<rfloor>;
          j = largest_ratio (zip outs rounded)
      in if j < length rounded then rounded[j := rounded ! j + leftover] else rounded)"

text \<open>Modelled from the spec: section 4.1, the minutes each subject receives.\<close>

definition distribute :: "real \<Rightarrow> Subject list \<Rightarrow> nat list" where
  "distribute total_available subjs =
     (let outs = map outstanding_minutes subjs;
          alloc = water_fill (length subjs) total_available outs
                    (target_allocation total_available outs)
      in round_allocation outs alloc)"

subsection \<open>Session-type sequencing\<close>

text \<open>
  Modelled from the spec: the fixed catalog of section 4.2, deep focus 90, review 60,
  deep focus 90, quick recap 30, and the minimum session size of 15 minutes.
\<close>

definition catalog :: "(session_type \<times> nat) list" where
  "catalog = [(deep_focus, 90), (review, 60), (deep_focus, 90), (quick_recap, 30)]"

definition minimum_session :: nat where
  "minimum_session = 15"

text \<open>
  Modelled from the spec: section 4.2 for one subject. The catalog is applied
  cyclically from entry \<open>i\<close>; when the remaining minutes are fewer than the next
  entry, one last session of the entry's type takes exactly the remainder, unless the
  remainder is under the minimum: then it is dropped and returned, to be given to
  the next subject.
\<close>

function sequence_from :: "nat \<Rightarrow> nat \<Rightarrow> (session_type \<times> nat) list \<times> nat" where
  "sequence_from i remaining =
     (case catalog ! (i mod 4) of
        (ty, d) \<Rightarrow>
          if d \<le> remaining then
            (case sequence_from (Suc i) (remaining - d) of (ss, r) \<Rightarrow> ((ty, d) # ss, r))
          else if minimum_session \<le> remaining then ([(ty, remaining)], 0)
          else ([], remaining))"
  by pat_completeness auto
termination
proof (relation "measure snd")
  show "wf (measure snd)" by simp
next
  fix i remaining d :: nat and ty :: session_type
  assume entry: "(ty, d) = catalog ! (i mod 4)" and le: "d \<le> remaining"
  have "i mod 4 = 0 \<or> i mod 4 = 1 \<or> i mod 4 = 2 \<or> i mod 4 = 3"
    by arith
  then have "0 < d"
    using entry by (auto simp: catalog_def)
  then show "((Suc i, remaining - d), (i, remaining)) \<in> measure snd"
    using le by simp
qed

declare sequence_from.simps [simp del]

text \<open>
  Modelled from the spec: section 4.2 over the subjects in iteration order; the
  minutes dropped for one subject are added to the allocation of the next.
\<close>

fun sequence_all :: "nat \<Rightarrow> nat list \<Rightarrow> (session_type \<times> nat) list list" where
  "sequence_all carry [] = []"
| "sequence_all carry (a # as) =
     (case sequence_from 0 (a + carry) of (ss, r) \<Rightarrow> ss # sequence_all r as)"

subsection \<open>Placement\<close>

text \<open>
  Modelled from the spec: the counters of section 4.3, passed through the placement:
  the minutes left of each day's budget, and the minutes already used of each block
  of each day.
\<close>

record Capacity =
  day_remaining :: "real list"
  block_used :: "nat \<times> time_block \<Rightarrow> nat"

text \<open>
  Modelled from the spec: a session of \<open>d\<close> minutes fits in a block of a day when
  the day's budget and the block's remaining window both hold it.
\<close>

definition fits :: "Capacity \<Rightarrow> nat \<Rightarrow> nat \<times> time_block \<Rightarrow> bool" where
  "fits cap d slot =
     (case slot of (k, b) \<Rightarrow>
        k < length (day_remaining cap) \<and>
        real d \<le> day_remaining cap ! k \<and>
        block_used cap (k, b) + d \<le> block_length b)"

text \<open>
  Modelled from the spec: step 3 of section 4.3. Days are scanned from the lowest
  index, and within a day the preferred blocks in the order given.
\<close>

definition find_slot :: "time_block list \<Rightarrow> Capacity \<Rightarrow> nat \<Rightarrow> (nat \<times> time_block) option" where
  "find_slot blocks cap d =
     find (fits cap d) (List.product [0..<length (day_remaining cap)] blocks)"

text \<open>Modelled from the spec: consuming the capacity of the block and of the day.\<close>

definition consume :: "Capacity \<Rightarrow> nat \<Rightarrow> nat \<times> time_block \<Rightarrow> Capacity" where
  "consume cap d slot =
     (case slot of (k, b) \<Rightarrow>
        cap\<lparr> day_remaining := (day_remaining cap)[k := day_remaining cap ! k - real d],
             block_used := (block_used cap)((k, b) := block_used cap (k, b) + d) \<rparr>)"

text \<open>Modelled from the spec: the derived title, such as "Deep Focus: Algebra".\<close>

fun type_label :: "session_type \<Rightarrow> string" where
  "type_label deep_focus = ''Deep Focus''"
| "type_label review = ''Review''"
| "type_label quick_recap = ''Quick Recap''"

text \<open>
  Modelled from the spec: steps 3 and 4 of section 4.3 over the sessions in the order
  they are to be placed. A session is placed at the next free start time of the
  first block that fits it; a session that fits nowhere is dropped.
\<close>

fun place_all ::
  "time_block list \<Rightarrow> Capacity \<Rightarrow> nat \<Rightarrow> (Subject \<times> session_type \<times> nat) list
     \<Rightarrow> ScheduledSession list" where
  "place_all blocks cap next_id [] = []"
| "place_all blocks cap next_id ((subj, ty, d) # rest) =
     (case find_slot blocks cap d of
        None \<Rightarrow> place_all blocks cap next_id rest
      | Some (k, b) \<Rightarrow>
          \<lparr> session_id = next_id,
            subject_id = subj_id subj,
            subject_name = subj_name subj,
            subject_color = subj_color subj,
            title = type_label ty @ '': '' @ subj_name subj,
            duration_minutes = d,
            start_time = block_start b + block_used cap (k, b),
            day_index = k,
            session_type = ty \<rparr>
          # place_all blocks (consume cap d (k, b)) (Suc next_id) rest)"

subsection \<open>Schedule assembly\<close>

text \<open>Modelled from the spec: rounding to one decimal (section 4.4), half up.\<close>

definition round1 :: "real \<Rightarrow> real" where
  "round1 x = of_int \<lfloor>x * 10 + 1 / 2\<rfloor> / 10"

text \<open>
  Modelled from the spec: section 4.4. The summary counts the placed minutes in
  hours, the highest day touched plus one (0 for no session), and the distinct
  subjects with a placed session.
\<close>

definition assemble :: "ScheduledSession list \<Rightarrow> Schedule" where
  "assemble ss =
     \<lparr> sched_sessions = ss,
       sched_total_hours = round1 (real (sum_list (map duration_minutes ss)) / 60),
       sched_days = (if ss = [] then 0 else fold max (map day_index ss) 0 + 1),
       sched_subjects_covered = length (remdups (map subject_id ss)) \<rparr>"

subsection \<open>The engine\<close>

text \<open>
  Modelled from the spec: the timetable generator of section 2, a function of the
  subject snapshot, today's date and the request. It validates the request, allots
  the available minutes (4.1), cuts each allotment into typed sessions (4.2), takes
  one session of each subject per pass (step 2 of 4.3), places them (4.3) and
  assembles the schedule (4.4).
\<close>

definition generate ::
  "Subject list \<Rightarrow> int \<Rightarrow> GenerationRequest \<Rightarrow> engine_error + Schedule" where
  "generate store today req =
     (if \<not> valid_request store req then Inl InvalidRequest
      else
        (let n = effective_days_count today req;
             subjs = selected_subjects store req;
             daily = hours_of req * 60;
             allocs = distribute (daily * real n) subjs;
             queues = map (\<lambda>(subj, q). map (\<lambda>(ty, d). (subj, ty, d)) q)
                        (zip subjs (sequence_all 0 allocs));
             cap = \<lparr> day_remaining = replicate n daily, block_used = (\<lambda>_. 0) \<rparr>
         in Inr (assemble (place_all (blocks_of req) cap 0 (concat (transpose queues))))))"

text \<open>
  Modelled from the spec: the scenario of section 8, subjects A with 180 and B with 60
  outstanding minutes, 4 hours a day, 7 days, no exam date.
\<close>

definition scenario_store :: "Subject list" where
  "scenario_store =
     [ \<lparr> subj_id = ''A'', subj_name = ''Algebra'', subj_color = ''#8B5CF6'',
         outstanding_minutes = 180 \<rparr>,
       \<lparr> subj_id = ''B'', subj_name = ''Biology'', subj_color = ''#10B981'',
         outstanding_minutes = 60 \<rparr> ]"

definition scenario_request :: GenerationRequest where
  "scenario_request =
     \<lparr> req_subject_ids = [''A'', ''B''],
       req_hours_per_day = Some 4,
       req_preferred_blocks = None,
       req_exam_date = None,
       req_days_count = Some 7 \<rparr>"

text \<open>
  Two sessions overlap when they are on the same day and the ranges
  \<open>[start_time, start_time + duration)\<close> have a minute in common.
\<close>

definition overlap :: "ScheduledSession \<Rightarrow> ScheduledSession \<Rightarrow> bool" where
  "overlap a b =
     (day_index a = day_index b \<and>
      max (start_time a) (start_time b)
        < min (start_time a + duration_minutes a) (start_time b + duration_minutes b))"

fun no_overlap :: "ScheduledSession list \<Rightarrow> bool" where
  "no_overlap [] = True"
| "no_overlap (s # ss) = (list_all (\<lambda>t. \<not> overlap s t) ss \<and> no_overlap ss)"

section \<open>Theorems\<close>

subsection \<open>The client: parsing and the generate handler\<close>

lemma parseFloat_empty: "parseFloat [] = NaN"
  by (simp add: parseFloat_def startsWithMinus_def dropSign_def units_def)

lemma parseInt_empty: "parseInt [] = NaN"
  by (simp add: parseInt_def startsWithMinus_def dropSign_def units_def)

lemma parseFloat_examples:
  "parseFloat (units ''4'') = Num 4"
  "parseFloat (units '' 2.5e1h'') = Num 25"
  "parseFloat (units ''.5'') = Num (1 / 2)"
  "parseFloat (units ''-Infinity'') = NegInfinity"
  "parseFloat (units ''abc'') = NaN"
  "parseFloat (units ''.'') = NaN"
  by code_simp+

lemma parseInt_examples:
  "parseInt (units ''7'') = Num 7"
  "parseInt (units '' -12abc'') = Num (- 12)"
  "parseInt (units ''0x1F'') = Num 31"
  "parseInt (units ''0x'') = NaN"
  "parseInt (units ''days'') = NaN"
  by code_simp+

text \<open>
  White space beyond ASCII is skipped too: a no-break space (U+00A0), a byte order
  mark (U+FEFF), a line separator (U+2028), an ideographic space (U+3000).
\<close>

lemma parse_skips_unicode_white_space:
  "parseFloat (0xA0 # units ''5'') = Num 5"
  "parseInt (0xA0 # units ''12'') = Num 12"
  "parseFloat (0xFEFF # 0x2028 # units '' 4.5'') = Num (9 / 2)"
  "parseInt (0x3000 # 0x2003 # units ''-3 days'') = Num (- 3)"
  by code_simp+

text \<open>
  What \<open>NaN\<close> means for the two parsers. \<^verbatim>\<open>parseInt\<close> finds no number exactly
  when, after the white space, a sign and the mark of radix 16, no digit of the radix
  follows. \<^verbatim>\<open>parseFloat\<close> finds none exactly when, after the white space and a sign,
  there is neither \<^verbatim>\<open>Infinity\<close> nor a digit nor a point with a digit after it.
\<close>

lemma parseInt_NaN_iff:
  "parseInt s = NaN \<longleftrightarrow>
     (let S1 = dropSign (dropWhile isWhiteSpace s) in
      if take 2 S1 = units ''0x'' \<or> take 2 S1 = units ''0X''
      then takeWhile (isRadixDigit 16) (drop 2 S1) = []
      else takeWhile (isRadixDigit 10) S1 = [])"
  by (simp add: parseInt_def Let_def)

lemma parseFloat_NaN_iff:
  "parseFloat s = NaN \<longleftrightarrow>
     (let S1 = dropSign (dropWhile isWhiteSpace s);
          R1 = dropWhile (isRadixDigit 10) S1 in
      take 8 S1 \<noteq> units ''Infinity''
      \<and> takeWhile (isRadixDigit 10) S1 = []
      \<and> (case R1 of [] \<Rightarrow> True
          | c # cs \<Rightarrow> c = unit_of CHR ''.'' \<longrightarrow> takeWhile (isRadixDigit 10) cs = []))"
  by (auto simp: parseFloat_def Let_def simp del: dropWhile_eq_Nil_conv
      split: list.splits)

text \<open>An input that starts with a decimal digit is never \<open>NaN\<close> for \<^verbatim>\<open>parseFloat\<close>.\<close>

lemma digit_not_white: "isRadixDigit 10 c \<Longrightarrow> \<not> isWhiteSpace c"
  by (auto simp: isRadixDigit_def digitValue_def isWhiteSpace_def Let_def word_le_def
      split: if_splits)

lemma parseFloat_digit_first:
  "isRadixDigit 10 c \<Longrightarrow> parseFloat (c # cs) \<noteq> NaN"
proof -
  assume d: "isRadixDigit 10 c"
  then have w: "\<not> isWhiteSpace c" by (rule digit_not_white)
  have s: "\<not> isSign c"
    using d by (auto simp: isRadixDigit_def digitValue_def isSign_def unit_of_def Let_def
        split: if_splits)
  show ?thesis
    using d w s by (simp add: parseFloat_NaN_iff Let_def dropSign_def)
qed

lemma handleGenerate_calls:
  "selectedSubjectIds (formData st) \<noteq> [] \<Longrightarrow>
     fst (handleGenerate api st) = [generateRequest (formData st)]"
  by (simp add: handleGenerate_def Let_def split: sum.splits)

lemma sample_session_conforms: "StudySessionResponse sample_session"
  by (simp add: StudySessionResponse_def sample_session_def getProp_def isString_def
      isNumber_def)

text \<open>
  C1 (as amended). A session of a response that has the type \<^verbatim>\<open>StudySessionResponse\<close>
  carries the string properties \<^verbatim>\<open>id\<close>, \<^verbatim>\<open>subject\<close>, \<^verbatim>\<open>subject_color\<close>,
  \<^verbatim>\<open>title\<close>, \<^verbatim>\<open>start_time\<close>, \<^verbatim>\<open>day\<close> and \<^verbatim>\<open>session_type\<close> and the number
  property \<^verbatim>\<open>duration\<close>, and the session that \<^verbatim>\<open>handleGenerate\<close> shows has every one
  of its seven properties defined, read from these.
\<close>

theorem StudySessionResponse_fields:
  "StudySessionResponse s \<Longrightarrow>
     \<exists>i sub col t d st dy ty.
       getProp s ''id'' = Some (JString i)
       \<and> getProp s ''subject'' = Some (JString sub)
       \<and> getProp s ''subject_color'' = Some (JString col)
       \<and> getProp s ''title'' = Some (JString t)
       \<and> getProp s ''duration'' = Some (JNumber d)
       \<and> getProp s ''start_time'' = Some (JString st)
       \<and> getProp s ''day'' = Some (JString dy)
       \<and> getProp s ''session_type'' = Some (JString ty)
       \<and> toStudySession s =
           \<lparr> ui_id = Some (JString i), ui_subject = Some (JString sub),
             ui_title = Some (JString t), ui_duration = Some (JNumber d),
             ui_startTime = Some (JString st), ui_color = Some (JString col),
             ui_type = Some (JString ty) \<rparr>"
  unfolding StudySessionResponse_def isString_def isNumber_def toStudySession_def
  by (auto split: option.splits json.splits)

theorem StudySessionResponse_fields_witness:
  "StudySessionResponse sample_session
   \<and> toStudySession sample_session =
       \<lparr> ui_id = Some (JString ''session-1''), ui_subject = Some (JString ''Algebra''),
         ui_title = Some (JString ''Break: Algebra''), ui_duration = Some (JNumber (45 / 2)),
         ui_startTime = Some (JString ''06:00''), ui_color = Some (JString ''#8B5CF6''),
         ui_type = Some (JString ''break'') \<rparr>"
  using StudySessionResponse_fields [OF sample_session_conforms] sample_session_conforms
  by (auto simp: sample_session_def getProp_def)

text \<open>
  With the field names of the specification C1 does not hold: \<open>sample_session\<close> has
  the type \<^verbatim>\<open>StudySessionResponse\<close> and carries no \<^verbatim>\<open>subject_id\<close>,
  \<^verbatim>\<open>subject_name\<close>, \<^verbatim>\<open>duration_minutes\<close> or \<^verbatim>\<open>day_index\<close>; its day is a string,
  its duration is not an integer and its session type is none of \<^verbatim>\<open>deep_focus\<close>,
  \<^verbatim>\<open>review\<close>, \<^verbatim>\<open>quick_recap\<close>.
\<close>

theorem StudySessionResponse_fields_counterexample:
  "StudySessionResponse sample_session
   \<and> getProp sample_session ''subject_id'' = None
   \<and> getProp sample_session ''subject_name'' = None
   \<and> getProp sample_session ''duration_minutes'' = None
   \<and> getProp sample_session ''day_index'' = None
   \<and> getProp sample_session ''day'' = Some (JString ''Monday'')
   \<and> getProp sample_session ''duration'' = Some (JNumber (45 / 2))
   \<and> getProp sample_session ''session_type'' = Some (JString ''break'')"
  by (simp add: StudySessionResponse_def sample_session_def getProp_def isString_def
      isNumber_def)

text \<open>
  C2 (as amended). When a subject is selected and no study block is, the handler
  makes one call of \<^verbatim>\<open>generateTimetable\<close>, and its \<^verbatim>\<open>preferred_blocks\<close> is the list
  of the two labels \<^verbatim>\<open>'Morning (6-12)'\<close> and \<^verbatim>\<open>'Afternoon (12-18)'\<close>.
\<close>

theorem handleGenerate_default_blocks:
  "selectedSubjectIds (formData st) \<noteq> [] \<Longrightarrow> studyBlocks (formData st) = [] \<Longrightarrow>
     \<exists>r. fst (handleGenerate api st) = [r]
       \<and> preferred_blocks r = [''Morning (6-12)'', ''Afternoon (12-18)'']"
  by (simp add: handleGenerate_calls generateRequest_def)

theorem handleGenerate_default_blocks_witness:
  "\<exists>r. fst (handleGenerate offline
            (initialState\<lparr> formData :=
               (formData initialState)\<lparr> selectedSubjectIds := [''subject-1''] \<rparr> \<rparr>)) = [r]
       \<and> preferred_blocks r = [''Morning (6-12)'', ''Afternoon (12-18)'']"
  using handleGenerate_default_blocks
    [of "initialState\<lparr> formData :=
           (formData initialState)\<lparr> selectedSubjectIds := [''subject-1''] \<rparr> \<rparr>"
        offline]
  by (simp add: initialState_def)

text \<open>
  With the bare names \<^verbatim>\<open>'Morning'\<close> and \<^verbatim>\<open>'Afternoon'\<close> C2 does not hold: from the
  initial form with one subject selected and no block selected, the one request sent
  has the two labels as its \<^verbatim>\<open>preferred_blocks\<close>.
\<close>

theorem handleGenerate_default_blocks_counterexample:
  "studyBlocks (formData (initialState\<lparr> formData :=
      (formData initialState)\<lparr> selectedSubjectIds := [''subject-1''] \<rparr> \<rparr>)) = []
   \<and> map preferred_blocks
        (fst (handleGenerate offline
           (initialState\<lparr> formData :=
              (formData initialState)\<lparr> selectedSubjectIds := [''subject-1''] \<rparr> \<rparr>)))
       = [[''Morning (6-12)'', ''Afternoon (12-18)'']]
   \<and> [''Morning (6-12)'', ''Afternoon (12-18)''] \<noteq> [''Morning'', ''Afternoon'']"
  by (simp add: initialState_def handleGenerate_def generateRequest_def offline_def)

text \<open>
  C4. When no subject is selected, the handler makes no call of
  \<^verbatim>\<open>generateTimetable\<close> and leaves the state as it was, the sessions shown and the
  timetable statistics included; the generate button of the dialog is disabled.
\<close>

theorem handleGenerate_no_subjects:
  "selectedSubjectIds (formData st) = [] \<Longrightarrow>
     fst (handleGenerate api st) = []
     \<and> snd (handleGenerate api st) = st
     \<and> studySessions (snd (handleGenerate api st)) = studySessions st
     \<and> timetableStats (snd (handleGenerate api st)) = timetableStats st
     \<and> generateDisabled st"
  by (simp add: handleGenerate_def generateDisabled_def)

theorem handleGenerate_no_subjects_witness:
  "selectedSubjectIds (formData (initialState\<lparr> studySessions := [toStudySession sample_session] \<rparr>)) = []
   \<and> handleGenerate
        (\<lambda>r. Inr \<lparr> sessions = [], total_hours = 0, days = 0, subjects_covered = 0 \<rparr>)
        (initialState\<lparr> studySessions := [toStudySession sample_session] \<rparr>)
       = ([], initialState\<lparr> studySessions := [toStudySession sample_session] \<rparr>)"
  using handleGenerate_no_subjects
    [of "initialState\<lparr> studySessions := [toStudySession sample_session] \<rparr>"
        "\<lambda>r. Inr \<lparr> sessions = [], total_hours = 0, days = 0, subjects_covered = 0 \<rparr>"]
  by (simp add: initialState_def prod_eq_iff)

text \<open>
  C5. When a subject is selected, the handler makes one call of
  \<^verbatim>\<open>generateTimetable\<close>. If the hours-per-day input is empty or \<^verbatim>\<open>parseFloat\<close> finds
  no number in it, the request has \<^verbatim>\<open>hours_per_day\<close> 4; if the days-to-plan input is
  empty or \<^verbatim>\<open>parseInt\<close> finds no number in it, the request has \<^verbatim>\<open>days_count\<close> 7.
\<close>

theorem handleGenerate_numeric_defaults:
  "selectedSubjectIds (formData st) \<noteq> [] \<Longrightarrow>
     \<exists>r. fst (handleGenerate api st) = [r]
       \<and> (hoursPerDay (formData st) = [] \<or> parseFloat (hoursPerDay (formData st)) = NaN
            \<longrightarrow> hours_per_day r = Num 4)
       \<and> (daysCount (formData st) = [] \<or> parseInt (daysCount (formData st)) = NaN
            \<longrightarrow> days_count r = Num 7)"
  by (auto simp: handleGenerate_calls generateRequest_def or_num_def truthy_def
      parseFloat_empty parseInt_empty)

theorem handleGenerate_numeric_defaults_witness:
  "parseFloat (units ''abc'') = NaN
   \<and> (\<exists>r. fst (handleGenerate offline
              (initialState\<lparr> formData :=
                 \<lparr> hoursPerDay = units ''abc'', studyBlocks = [''Evening (18-24)''],
                   examDate = [], selectedSubjectIds = [''subject-1''],
                   daysCount = [] \<rparr> \<rparr>)) = [r]
          \<and> hours_per_day r = Num 4 \<and> days_count r = Num 7)"
proof -
  have nan: "parseFloat (units ''abc'') = NaN"
    by code_simp
  show ?thesis
    using nan handleGenerate_numeric_defaults
      [of "initialState\<lparr> formData :=
             \<lparr> hoursPerDay = units ''abc'', studyBlocks = [''Evening (18-24)''],
               examDate = [], selectedSubjectIds = [''subject-1''],
               daysCount = [] \<rparr> \<rparr>"
          offline]
    by simp
qed

text \<open>
  An input that parses is sent as parsed, also behind white space that is not ASCII:
  a no-break space before \<^verbatim>\<open>5\<close> and before \<^verbatim>\<open>12\<close> sends 5 hours and 12 days.
\<close>

lemma handleGenerate_parsed_inputs:
  "fst (handleGenerate offline
          (initialState\<lparr> formData :=
             \<lparr> hoursPerDay = 0xA0 # units ''5'', studyBlocks = [], examDate = [],
               selectedSubjectIds = [''subject-1''],
               daysCount = 0xA0 # units ''12'' \<rparr> \<rparr>))
   = [ \<lparr> subject_ids = [''subject-1''], hours_per_day = Num 5,
         preferred_blocks = [''Morning (6-12)'', ''Afternoon (12-18)''],
         exam_date = None, days_count = Num 12 \<rparr> ]"
  by code_simp

subsection \<open>The toggles\<close>

lemma count_list_filter_neq:
  "y \<noteq> x \<Longrightarrow> count_list (filter (\<lambda>i. i \<noteq> x) a) y = count_list a y"
  by (induction a) auto

lemma count_list_snoc_neq:
  "y \<noteq> x \<Longrightarrow> count_list (a @ [x]) y = count_list a y"
  by (induction a) auto

text \<open>
  C8. For every string array \<open>a\<close> and string \<open>x\<close>, the toggled array contains \<open>x\<close>
  exactly when \<open>a\<close> does not; every other element occurs in it as often as in \<open>a\<close>;
  and toggling the same item twice gives an array with the members of \<open>a\<close>.
\<close>

theorem toggleArrayItem_flips_membership:
  "(x \<in> set (toggleArrayItem a x)) = (x \<notin> set a)
   \<and> (\<forall>y. y \<noteq> x \<longrightarrow> count_list (toggleArrayItem a x) y = count_list a y)
   \<and> set (toggleArrayItem (toggleArrayItem a x) x) = set a"
proof (intro conjI allI impI)
  show "(x \<in> set (toggleArrayItem a x)) = (x \<notin> set a)"
    by (simp add: toggleArrayItem_def)
next
  fix y assume "y \<noteq> x"
  then show "count_list (toggleArrayItem a x) y = count_list a y"
    by (simp add: toggleArrayItem_def count_list_filter_neq count_list_snoc_neq)
next
  show "set (toggleArrayItem (toggleArrayItem a x) x) = set a"
    by (auto simp: toggleArrayItem_def)
qed

theorem toggleArrayItem_flips_membership_witness:
  "''Evening (18-24)'' \<notin> set (toggleArrayItem [''Morning (6-12)'', ''Evening (18-24)'', ''Morning (6-12)''] ''Evening (18-24)'')
   \<and> count_list (toggleArrayItem [''Morning (6-12)'', ''Evening (18-24)'', ''Morning (6-12)''] ''Evening (18-24)'') ''Morning (6-12)'' = 2
   \<and> set (toggleArrayItem (toggleArrayItem [''Morning (6-12)'', ''Evening (18-24)'', ''Morning (6-12)''] ''Evening (18-24)'') ''Evening (18-24)'')
       = {''Morning (6-12)'', ''Evening (18-24)''}"
  using toggleArrayItem_flips_membership
    [of "''Evening (18-24)''" "[''Morning (6-12)'', ''Evening (18-24)'', ''Morning (6-12)'']"]
  by auto

subsection \<open>Formatting minutes\<close>

lemma natToString_0: "natToString 0 = ''0''"
  by (simp add: natToString.simps digitChar_def)

lemma formatMinutes_examples:
  "formatMinutes_AnalyzeView 0 = ''0m''"
  "formatMinutes_SubjectManagement 0 = ''0m''"
  "formatMinutes_AnalyzeView 45 = ''45m''"
  "formatMinutes_AnalyzeView (145 / 2) = ''1h 13m''"
  "formatMinutes_DashboardView 120 = ''2h''"
  "formatMinutes_LibraryView 605 = ''10h 5m''"
  by (simp_all add: formatMinutes_AnalyzeView_def formatMinutes_SubjectManagement_def
      formatMinutes_DashboardView_def formatMinutes_LibraryView_def numberToString_def
      Math_round_def Math_floor_def remainder_def natToString.simps digitChar_def Let_def)

text \<open>
  C9. The four \<^verbatim>\<open>formatMinutes\<close> helpers, of \<^verbatim>\<open>SubjectManagement\<close>,
  \<^verbatim>\<open>DashboardView\<close>, \<^verbatim>\<open>AnalyzeView\<close> and \<^verbatim>\<open>LibraryView\<close>, return the same string
  for every number of minutes (nonnegative or not), although only the first two test
  \<^verbatim>\<open>minutes === 0\<close>.
\<close>

theorem formatMinutes_agree:
  "formatMinutes_SubjectManagement minutes = formatMinutes_AnalyzeView minutes
   \<and> formatMinutes_DashboardView minutes = formatMinutes_AnalyzeView minutes
   \<and> formatMinutes_LibraryView minutes = formatMinutes_AnalyzeView minutes"
  by (simp add: formatMinutes_SubjectManagement_def formatMinutes_DashboardView_def
      formatMinutes_LibraryView_def formatMinutes_AnalyzeView_def
      numberToString_def Math_round_def natToString_0)

subsection \<open>The analysis dialog\<close>

lemma runAnalysis_example:
  "runAnalysis (Some \<lparr> pages = Some 12, estimatedTime = Some (units ''1h 13m''),
      meta_difficulty = Some hard, aiKeyTopics = None, aiStudyTips = None,
      meta_aiReasoning = None, wordCount = Some 840, imageCount = None \<rparr>)
   = \<lparr> totalPages = 12, contentDensity = 88, estimatedHours = Num 1, difficulty = hard,
       recommendedSessions =
         [ \<lparr> duration = 90, type = ''Deep focus'' \<rparr>,
           \<lparr> duration = 60, type = ''Review'' \<rparr>,
           \<lparr> duration = 90, type = ''Deep focus'' \<rparr>,
           \<lparr> duration = 30, type = ''Quick recap'' \<rparr> ],
       suggestedTopics =
         [''Core concepts'', ''Key principles'', ''Applications'', ''Practice problems''],
       aiReasoning = None, studyTips = None \<rparr>"
  by code_simp

text \<open>
  C7. Whatever the file metadata, and also without any, the recommended sessions of
  the analysis result are the four entries deep focus 90 minutes, review 60 minutes,
  deep focus 90 minutes and quick recap 30 minutes, in this order.
\<close>

theorem recommendedSessions_fixed:
  "recommendedSessions (runAnalysis md) =
     [ \<lparr> duration = 90, type = ''Deep focus'' \<rparr>,
       \<lparr> duration = 60, type = ''Review'' \<rparr>,
       \<lparr> duration = 90, type = ''Deep focus'' \<rparr>,
       \<lparr> duration = 30, type = ''Quick recap'' \<rparr> ]"
  by (simp add: runAnalysis_def Let_def)

text \<open>
  C10. When the word count of the metadata is not negative (or is missing), the
  content density of the analysis result is an integer from 30 to 100, whatever the
  page count.
\<close>

theorem contentDensity_range:
  assumes "\<forall>w. optField wordCount md = Some w \<longrightarrow> 0 \<le> w"
  shows "30 \<le> contentDensity (runAnalysis md)
         \<and> contentDensity (runAnalysis md) \<le> 100
         \<and> contentDensity (runAnalysis md) \<in> \<int>"
proof -
  define w where "w = or_real (optField wordCount md) 0"
  define p where "p = or_real (optField pages md) 20"
  have w0: "0 \<le> w"
    using assms by (auto simp: w_def or_real_def split: option.splits)
  have "0 \<le> w / max p 1 / (12 / 10)"
    using w0 by simp
  then have fl: "0 \<le> Math_floor (w / max p 1 / (12 / 10))"
    by (simp add: Math_floor_def)
  have cd: "contentDensity (runAnalysis md)
      = min (of_int (Math_floor (w / max p 1 / (12 / 10))) + 30) 100"
    by (simp add: runAnalysis_def Let_def w_def p_def)
  have "min (of_int (Math_floor (w / max p 1 / (12 / 10))) + 30) (100::real)
      = of_int (min (Math_floor (w / max p 1 / (12 / 10)) + 30) 100)"
    by (simp add: min_def)
  then have int: "contentDensity (runAnalysis md) \<in> \<int>"
    unfolding cd by (metis Ints_of_int)
  from fl have "(30::real) \<le> of_int (Math_floor (w / max p 1 / (12 / 10))) + 30"
    by simp
  then have "30 \<le> contentDensity (runAnalysis md)"
    unfolding cd by simp
  moreover have "contentDensity (runAnalysis md) \<le> 100"
    unfolding cd by simp
  ultimately show ?thesis using int by simp
qed

theorem contentDensity_range_witness:
  "contentDensity (runAnalysis (Some \<lparr> pages = Some (- 3), estimatedTime = None,
      meta_difficulty = None, aiKeyTopics = None, aiStudyTips = None,
      meta_aiReasoning = None, wordCount = Some 50, imageCount = None \<rparr>)) = 71
   \<and> (30::real) \<le> 71 \<and> (71::real) \<le> 100 \<and> (71::real) \<in> \<int>"
proof -
  let ?md = "Some \<lparr> pages = Some (- 3), estimatedTime = None,
      meta_difficulty = None, aiKeyTopics = None, aiStudyTips = None,
      meta_aiReasoning = None, wordCount = Some 50, imageCount = None \<rparr>"
  have v: "contentDensity (runAnalysis ?md) = 71"
    by (simp add: runAnalysis_def Let_def optField_def or_real_def Math_floor_def)
  have "\<forall>w. optField wordCount ?md = Some w \<longrightarrow> 0 \<le> w"
    by (simp add: optField_def)
  from contentDensity_range [OF this] v show ?thesis
    by simp
qed

subsection \<open>The timetable generator\<close>

lemma find_slot_fits:
  "find_slot blocks cap d = Some slot \<Longrightarrow> fits cap d slot"
  by (auto simp: find_slot_def find_Some_iff)

lemma find_slot_no_days:
  "day_remaining cap = [] \<Longrightarrow> find_slot blocks cap d = None"
  by (simp add: find_slot_def)

lemma place_all_no_days:
  "day_remaining cap = [] \<Longrightarrow> place_all blocks cap n ps = []"
  by (induction ps arbitrary: n) (auto simp: find_slot_no_days)

lemma block_used_consume:
  "block_used cap slot' \<le> block_used (consume cap d slot) slot'"
  by (cases slot) (simp add: consume_def)

lemma block_used_consume_same:
  "block_used (consume cap d (k, b)) (k, b) = block_used cap (k, b) + d"
  by (simp add: consume_def)

lemma block_windows_disjoint:
  "b \<noteq> b' \<Longrightarrow>
     block_start b + block_length b \<le> block_start b'
     \<or> block_start b' + block_length b' \<le> block_start b"
  by (cases b; cases b') (simp_all add: block_length_def)

lemma place_all_window:
  "s \<in> set (place_all blocks cap n ps) \<Longrightarrow>
     \<exists>b. block_start b + block_used cap (day_index s, b) \<le> start_time s
       \<and> start_time s + duration_minutes s \<le> block_start b + block_length b"
proof (induction ps arbitrary: cap n)
  case Nil
  then show ?case by simp
next
  case (Cons p ps)
  obtain subj ty d where p: "p = (subj, ty, d)"
    by (cases p) auto
  show ?case
  proof (cases "find_slot blocks cap d")
    case None
    with Cons p show ?thesis by simp
  next
    case (Some slot)
    obtain k b where slot: "slot = (k, b)"
      by (cases slot) auto
    have fit: "block_used cap (k, b) + d \<le> block_length b"
      using find_slot_fits [OF Some] by (simp add: slot fits_def)
    from Cons.prems p Some slot
    consider (head) "day_index s = k" "start_time s = block_start b + block_used cap (k, b)"
        "duration_minutes s = d"
      | (rest) "s \<in> set (place_all blocks (consume cap d (k, b)) (Suc n) ps)"
      by auto
    then show ?thesis
    proof cases
      case head
      with fit show ?thesis by (intro exI [of _ b]) simp
    next
      case rest
      from Cons.IH [OF rest] obtain b' where
        b': "block_start b' + block_used (consume cap d (k, b)) (day_index s, b') \<le> start_time s"
          "start_time s + duration_minutes s \<le> block_start b' + block_length b'"
        by blast
      have "block_used cap (day_index s, b') \<le> block_used (consume cap d (k, b)) (day_index s, b')"
        by (rule block_used_consume)
      with b' show ?thesis by (intro exI [of _ b']) simp
    qed
  qed
qed

lemma place_all_no_overlap:
  "no_overlap (place_all blocks cap n ps)"
proof (induction ps arbitrary: cap n)
  case Nil
  show ?case by simp
next
  case (Cons p ps)
  obtain subj ty d where p: "p = (subj, ty, d)"
    by (cases p) auto
  show ?case
  proof (cases "find_slot blocks cap d")
    case None
    with Cons p show ?thesis by simp
  next
    case (Some slot)
    obtain k b where slot: "slot = (k, b)"
      by (cases slot) auto
    have fit: "block_used cap (k, b) + d \<le> block_length b"
      using find_slot_fits [OF Some] by (simp add: slot fits_def)
    define s0 where "s0 =
      \<lparr> session_id = n, subject_id = subj_id subj, subject_name = subj_name subj,
        subject_color = subj_color subj, title = type_label ty @ '': '' @ subj_name subj,
        duration_minutes = d, start_time = block_start b + block_used cap (k, b),
        day_index = k, session_type = ty \<rparr>"
    define rest where "rest = place_all blocks (consume cap d (k, b)) (Suc n) ps"
    have unfold: "place_all blocks cap n (p # ps) = s0 # rest"
      by (simp add: p Some slot s0_def rest_def)
    have "\<not> overlap s0 t" if t: "t \<in> set rest" for t
    proof -
      from place_all_window [OF t [unfolded rest_def]] obtain b' where
        lo: "block_start b' + block_used (consume cap d (k, b)) (day_index t, b') \<le> start_time t"
        and hi: "start_time t + duration_minutes t \<le> block_start b' + block_length b'"
        by blast
      show ?thesis
      proof (cases "day_index t = k")
        case False
        then show ?thesis by (simp add: overlap_def s0_def)
      next
        case True
        show ?thesis
        proof (cases "b' = b")
          case True
          with lo \<open>day_index t = k\<close>
          have "block_start b + block_used cap (k, b) + d \<le> start_time t"
            by (simp add: block_used_consume_same)
          then show ?thesis by (simp add: overlap_def s0_def)
        next
          case False
          from block_windows_disjoint [OF False] lo hi fit
          show ?thesis by (auto simp: overlap_def s0_def)
        qed
      qed
    qed
    then have "list_all (\<lambda>t. \<not> overlap s0 t) rest"
      by (simp add: list_all_iff)
    moreover have "no_overlap rest"
      unfolding rest_def by (rule Cons.IH)
    ultimately show ?thesis
      unfolding unfold by simp
  qed
qed

lemma generate_valid:
  "valid_request store req \<Longrightarrow>
     \<exists>ps. generate store today req =
       Inr (assemble (place_all (blocks_of req)
              \<lparr> day_remaining = replicate (effective_days_count today req) (hours_of req * 60),
                block_used = (\<lambda>_. 0) \<rparr> 0 ps))"
  by (auto simp: generate_def Let_def)

lemma generate_invalid:
  "\<not> valid_request store req \<Longrightarrow> generate store today req = Inl InvalidRequest"
  by (simp add: generate_def)

lemma scenario_valid: "valid_request scenario_store scenario_request"
  by (simp add: valid_request_def scenario_store_def scenario_request_def)

lemma scenario_schedule:
  "generate scenario_store 100 scenario_request =
     Inr \<lparr> sched_sessions =
             [ \<lparr> session_id = 0, subject_id = ''A'', subject_name = ''Algebra'',
                 subject_color = ''#8B5CF6'', title = ''Deep Focus: Algebra'',
                 duration_minutes = 90, start_time = 360, day_index = 0,
                 session_type = deep_focus \<rparr>,
               \<lparr> session_id = 1, subject_id = ''B'', subject_name = ''Biology'',
                 subject_color = ''#10B981'', title = ''Deep Focus: Biology'',
                 duration_minutes = 60, start_time = 450, day_index = 0,
                 session_type = deep_focus \<rparr>,
               \<lparr> session_id = 2, subject_id = ''A'', subject_name = ''Algebra'',
                 subject_color = ''#8B5CF6'', title = ''Review: Algebra'',
                 duration_minutes = 60, start_time = 510, day_index = 0,
                 session_type = review \<rparr>,
               \<lparr> session_id = 3, subject_id = ''A'', subject_name = ''Algebra'',
                 subject_color = ''#8B5CF6'', title = ''Deep Focus: Algebra'',
                 duration_minutes = 30, start_time = 570, day_index = 0,
                 session_type = deep_focus \<rparr> ],
           sched_total_hours = 4, sched_days = 1, sched_subjects_covered = 2 \<rparr>"
  by code_simp

text \<open>
  C3. Every request that passes validation (at least one subject, every subject
  known, positive hours and days) gets a schedule, and no schedule the engine returns
  has two sessions on the same day whose ranges \<open>[start_time, start_time + duration)\<close>
  overlap.
\<close>

theorem generate_no_overlap:
  "(valid_request store req \<longrightarrow>
      (\<exists>sch. generate store today req = Inr sch \<and> no_overlap (sched_sessions sch)))
   \<and> (\<forall>sch. generate store today req = Inr sch \<longrightarrow> no_overlap (sched_sessions sch))"
proof (cases "valid_request store req")
  case True
  from generate_valid [OF True, of today] obtain ps where
    "generate store today req =
       Inr (assemble (place_all (blocks_of req)
              \<lparr> day_remaining = replicate (effective_days_count today req) (hours_of req * 60),
                block_used = (\<lambda>_. 0) \<rparr> 0 ps))"
    by blast
  then show ?thesis
    by (simp add: assemble_def place_all_no_overlap)
next
  case False
  then show ?thesis by (simp add: generate_invalid)
qed

theorem generate_no_overlap_witness:
  "valid_request scenario_store scenario_request
   \<and> (\<exists>sch. generate scenario_store 100 scenario_request = Inr sch
          \<and> no_overlap (sched_sessions sch)
          \<and> map (\<lambda>s. (day_index s, start_time s, duration_minutes s)) (sched_sessions sch)
              = [(0, 360, 90), (0, 450, 60), (0, 510, 60), (0, 570, 30)])"
  using generate_no_overlap [of scenario_store scenario_request 100] scenario_valid
  by (auto simp: scenario_schedule)

text \<open>
  C6. For a request that passes validation and whose exam date is earlier than
  tomorrow, the engine returns the empty schedule, with no session, 0 hours, 0 days
  and 0 subjects covered, and no error.
\<close>

theorem generate_past_exam_date:
  assumes "valid_request store req"
    and "req_exam_date req = Some (OnDay e)"
    and "e < today + 1"
  shows "generate store today req =
           Inr \<lparr> sched_sessions = [], sched_total_hours = 0, sched_days = 0,
                 sched_subjects_covered = 0 \<rparr>"
proof -
  have "effective_days_count today req = 0"
    using assms(2,3) by (simp add: effective_days_count_def)
  with generate_valid [OF assms(1), of today] show ?thesis
    by (auto simp: place_all_no_days assemble_def round1_def)
qed

theorem generate_past_exam_date_witness:
  "valid_request scenario_store (scenario_request\<lparr> req_exam_date := Some (OnDay 99) \<rparr>)
   \<and> (99::int) < 100 + 1
   \<and> generate scenario_store 100 (scenario_request\<lparr> req_exam_date := Some (OnDay 99) \<rparr>) =
       Inr \<lparr> sched_sessions = [], sched_total_hours = 0, sched_days = 0,
             sched_subjects_covered = 0 \<rparr>"
proof -
  have v: "valid_request scenario_store (scenario_request\<lparr> req_exam_date := Some (OnDay 99) \<rparr>)"
    by (simp add: valid_request_def scenario_store_def scenario_request_def)
  show ?thesis
    using v generate_past_exam_date [OF v, of 99 100] by simp
qed

end
